theory Spec2Isabelle
  imports Main
begin

section \<open>The simulated sensors module (flight/Modules/Sensors/simulated/sensors.c)\<close>

text \<open>
  The module has three entry points: \<open>SensorsInitialize\<close>, \<open>SensorsStart\<close> and the task
  body \<open>SensorsTask\<close>. Everything they do is a call into a collaborator (the UAVObject
  store, FreeRTOS, the task monitor, the watchdog, the alarms library), so the model is a
  world that holds the store's records, the tick counter and the log of the calls made,
  in the order they are made.
\<close>

subsection \<open>The records of the store\<close>

text \<open>
  Modelled from the spec: the generated headers (accels.h, gyros.h, gyrosbias.h,
  baroaltitude.h, gpsposition.h, homelocation.h, magnetometer.h) are not part of the
  sources at hand. The records have the fields the spec's data model lists, which are the
  fields the source assigns. The scalar type of the fields is left open as \<open>'a\<close>: the
  functions below need numerals, addition and negation on it and nothing else.
  \<open>AccelsData\<close>, \<open>GyrosData\<close> and \<open>MagnetometerData\<close> are built from scratch by the task
  ("Skip get as we set all the fields"). \<open>BaroAltitudeData\<close>, \<open>GPSPositionData\<close> and
  \<open>HomeLocationData\<close> are read, changed and written back: whatever other fields their
  headers declare is the extension part of the record scheme (\<open>more\<close>).
\<close>

record 'a AccelsData =
  accels_x :: 'a
  accels_y :: 'a
  accels_z :: 'a
  accels_temperature :: 'a

record 'a GyrosData =
  gyros_x :: 'a
  gyros_y :: 'a
  gyros_z :: 'a

record 'a GyrosBiasData =
  bias_x :: 'a
  bias_y :: 'a
  bias_z :: 'a

record 'a MagnetometerData =
  mag_x :: 'a
  mag_y :: 'a
  mag_z :: 'a

record 'a BaroAltitudeData =
  baro_Altitude :: 'a

record 'a GPSPositionData =
  gps_Latitude :: 'a
  gps_Longitude :: 'a
  gps_Altitude :: 'a

datatype HomeLocationSetOptions = HOMELOCATION_SET_FALSE | HOMELOCATION_SET_TRUE

text \<open>\<open>Be\<close> is a C array of three elements, read and written at the indices 0, 1, 2.\<close>

record 'a HomeLocationData =
  home_Latitude :: 'a
  home_Longitude :: 'a
  home_Altitude :: 'a
  home_Be :: "nat \<Rightarrow> 'a"
  home_Set :: HomeLocationSetOptions

datatype uavobj =
  Accels | BaroAltitude | Gyros | GyrosBias | GPSPosition | HomeLocation
  | Magnetometer | RevoCalibration

record ('a, 'b, 'g, 'h) objects =
  accels :: "'a AccelsData"
  gyros :: "'a GyrosData"
  gyrosBias :: "'a GyrosBiasData"
  baroAltitude :: "('a, 'b) BaroAltitudeData_scheme"
  gpsPosition :: "('a, 'g) GPSPositionData_scheme"
  homeLocation :: "('a, 'h) HomeLocationData_scheme"
  magnetometer :: "'a MagnetometerData"

subsection \<open>The world: store, scheduler, call log\<close>

type_synonym xTaskHandle = nat

datatype taskinfo = TASKINFO_RUNNING_SENSORS
datatype wdgflag = PIOS_WDG_SENSORS
datatype alarm = SYSTEMALARMS_ALARM_SENSORS

text \<open>
  One constructor for each collaborator function the module calls. A read carries the
  record it returned, a write the record it stored.
\<close>

datatype ('a, 'b, 'g, 'h) call =
    ObjInitialize uavobj
  | TaskCreate string nat nat
  | TaskMonitorAdd taskinfo "xTaskHandle option"
  | WDG_RegisterFlag wdgflag
  | AlarmsClear alarm
  | GetTickCount nat
  | Get_HomeLocation "('a, 'h) HomeLocationData_scheme"
  | Set_HomeLocation "('a, 'h) HomeLocationData_scheme"
  | Set_Accels "'a AccelsData"
  | Get_GyrosBias "'a GyrosBiasData"
  | Set_Gyros "'a GyrosData"
  | Get_BaroAltitude "('a, 'b) BaroAltitudeData_scheme"
  | Set_BaroAltitude "('a, 'b) BaroAltitudeData_scheme"
  | Get_GPSPosition "('a, 'g) GPSPositionData_scheme"
  | Set_GPSPosition "('a, 'g) GPSPositionData_scheme"
  | Set_Magnetometer "'a MagnetometerData"
  | WDG_UpdateFlag wdgflag
  | TaskDelay nat

record ('a, 'b, 'g, 'h) world =
  store :: "('a, 'b, 'g, 'h) objects"
  registered :: "uavobj set"
  sensorsTaskHandle :: "xTaskHandle option"
  ticks :: nat
  calls :: "('a, 'b, 'g, 'h) call list"

definition log :: "('a, 'b, 'g, 'h) call \<Rightarrow> ('a, 'b, 'g, 'h) world \<Rightarrow> ('a, 'b, 'g, 'h) world" where
  "log c w = w\<lparr>calls := calls w @ [c]\<rparr>"


subsection \<open>Constants\<close>

text \<open>
  Modelled from the spec: \<open>portTICK_RATE_MS\<close> and \<open>tskIDLE_PRIORITY\<close> are FreeRTOS
  configuration macros, declared outside the sources at hand; they are parameters. In C
  \<open>20 / portTICK_RATE_MS\<close> is an integer division by a positive constant; the
  theorems that speak of the length of the delay assume \<open>0 < portTICK_RATE_MS\<close>.
\<close>

record config =
  portTICK_RATE_MS :: nat
  tskIDLE_PRIORITY :: nat

definition STACK_SIZE_BYTES :: nat where
  "STACK_SIZE_BYTES = 1540"

definition TASK_PRIORITY :: "config \<Rightarrow> nat" where
  "TASK_PRIORITY cfg = tskIDLE_PRIORITY cfg + 3"

definition SENSOR_PERIOD :: nat where
  "SENSOR_PERIOD = 2"

subsection \<open>The collaborators\<close>

text \<open>
  Modelled from the spec: the UAVObject store is not part of the sources at hand. The
  spec gives it, per record type, \<open>initialize()\<close>, \<open>get() -> instance\<close> and
  \<open>set(instance)\<close>, each atomic. \<open>reg obj\<close> is the code the store returns when \<open>obj\<close>
  is registered: 0 when it succeeds, and then the object is registered.
\<close>

definition UAVObjInitialize ::
  "(uavobj \<Rightarrow> int) \<Rightarrow> uavobj \<Rightarrow> ('a, 'b, 'g, 'h) world \<Rightarrow> int \<times> ('a, 'b, 'g, 'h) world" where
  "UAVObjInitialize reg obj w =
     (reg obj,
      log (ObjInitialize obj)
        (if reg obj = 0 then w\<lparr>registered := insert obj (registered w)\<rparr> else w))"

definition HomeLocationGet ::
  "('a, 'b, 'g, 'h) world \<Rightarrow> ('a, 'h) HomeLocationData_scheme \<times> ('a, 'b, 'g, 'h) world" where
  "HomeLocationGet w = (homeLocation (store w), log (Get_HomeLocation (homeLocation (store w))) w)"

definition HomeLocationSet ::
  "('a, 'h) HomeLocationData_scheme \<Rightarrow> ('a, 'b, 'g, 'h) world \<Rightarrow> ('a, 'b, 'g, 'h) world" where
  "HomeLocationSet v w = log (Set_HomeLocation v) (w\<lparr>store := (store w)\<lparr>homeLocation := v\<rparr>\<rparr>)"

definition AccelsSet ::
  "'a AccelsData \<Rightarrow> ('a, 'b, 'g, 'h) world \<Rightarrow> ('a, 'b, 'g, 'h) world" where
  "AccelsSet v w = log (Set_Accels v) (w\<lparr>store := (store w)\<lparr>accels := v\<rparr>\<rparr>)"

definition GyrosBiasGet ::
  "('a, 'b, 'g, 'h) world \<Rightarrow> 'a GyrosBiasData \<times> ('a, 'b, 'g, 'h) world" where
  "GyrosBiasGet w = (gyrosBias (store w), log (Get_GyrosBias (gyrosBias (store w))) w)"

definition GyrosSet ::
  "'a GyrosData \<Rightarrow> ('a, 'b, 'g, 'h) world \<Rightarrow> ('a, 'b, 'g, 'h) world" where
  "GyrosSet v w = log (Set_Gyros v) (w\<lparr>store := (store w)\<lparr>gyros := v\<rparr>\<rparr>)"

definition BaroAltitudeGet ::
  "('a, 'b, 'g, 'h) world \<Rightarrow> ('a, 'b) BaroAltitudeData_scheme \<times> ('a, 'b, 'g, 'h) world" where
  "BaroAltitudeGet w = (baroAltitude (store w), log (Get_BaroAltitude (baroAltitude (store w))) w)"

definition BaroAltitudeSet ::
  "('a, 'b) BaroAltitudeData_scheme \<Rightarrow> ('a, 'b, 'g, 'h) world \<Rightarrow> ('a, 'b, 'g, 'h) world" where
  "BaroAltitudeSet v w = log (Set_BaroAltitude v) (w\<lparr>store := (store w)\<lparr>baroAltitude := v\<rparr>\<rparr>)"

definition GPSPositionGet ::
  "('a, 'b, 'g, 'h) world \<Rightarrow> ('a, 'g) GPSPositionData_scheme \<times> ('a, 'b, 'g, 'h) world" where
  "GPSPositionGet w = (gpsPosition (store w), log (Get_GPSPosition (gpsPosition (store w))) w)"

definition GPSPositionSet ::
  "('a, 'g) GPSPositionData_scheme \<Rightarrow> ('a, 'b, 'g, 'h) world \<Rightarrow> ('a, 'b, 'g, 'h) world" where
  "GPSPositionSet v w = log (Set_GPSPosition v) (w\<lparr>store := (store w)\<lparr>gpsPosition := v\<rparr>\<rparr>)"

definition MagnetometerSet ::
  "'a MagnetometerData \<Rightarrow> ('a, 'b, 'g, 'h) world \<Rightarrow> ('a, 'b, 'g, 'h) world" where
  "MagnetometerSet v w = log (Set_Magnetometer v) (w\<lparr>store := (store w)\<lparr>magnetometer := v\<rparr>\<rparr>)"

text \<open>
  Modelled from the spec: FreeRTOS, the task monitor, the watchdog and the alarms library
  are not part of the sources at hand. Of \<open>TaskMonitorAdd\<close>, \<open>PIOS_WDG_RegisterFlag\<close>,
  \<open>PIOS_WDG_UpdateFlag\<close> and \<open>AlarmsClear\<close> the model keeps the call and its arguments.
  \<open>spawn\<close> is the scheduler's answer to \<open>xTaskCreate\<close>: \<open>Some h\<close> when the task is
  created, with handle \<open>h\<close> (the call returns pdPASS, 1, and stores the handle), \<open>None\<close>
  when it could not be created (the call returns -1 and stores nothing).
  \<open>xTaskGetTickCount\<close> reads the tick counter.

  \<open>vTaskDelay\<close> is the suspension call the source makes. It is FreeRTOS's relative delay:
  the caller is blocked for the given number of ticks, counted from the call. The call
  receives a length and nothing else; the wait for a period boundary is another FreeRTOS
  call, \<open>vTaskDelayUntil\<close>, which is given the previous wake time, and the source neither
  calls it nor hands \<open>lastSysTime\<close> to anything.
\<close>

definition xTaskCreate ::
  "xTaskHandle option \<Rightarrow> string \<Rightarrow> nat \<Rightarrow> nat \<Rightarrow> ('a, 'b, 'g, 'h) world
     \<Rightarrow> int \<times> ('a, 'b, 'g, 'h) world" where
  "xTaskCreate spawn name depth prio w =
     (case spawn of
        Some h \<Rightarrow> (1, log (TaskCreate name depth prio) (w\<lparr>sensorsTaskHandle := Some h\<rparr>))
      | None \<Rightarrow> (- 1, log (TaskCreate name depth prio) w))"

definition xTaskGetTickCount ::
  "('a, 'b, 'g, 'h) world \<Rightarrow> nat \<times> ('a, 'b, 'g, 'h) world" where
  "xTaskGetTickCount w = (ticks w, log (GetTickCount (ticks w)) w)"

definition vTaskDelay :: "nat \<Rightarrow> ('a, 'b, 'g, 'h) world \<Rightarrow> ('a, 'b, 'g, 'h) world" where
  "vTaskDelay n w = log (TaskDelay n) (w\<lparr>ticks := ticks w + n\<rparr>)"

text \<open>
  What happens around one cycle outside the task: \<open>busy\<close> is the number of ticks that go
  by between the start of the cycle and its call of \<open>vTaskDelay\<close> (the task never reads
  the clock in between), \<open>others\<close> is what the other tasks do to the store while this
  one is blocked in \<open>vTaskDelay\<close>, its only suspension point.
\<close>

record ('a, 'b, 'g, 'h) interference =
  busy :: nat
  others :: "('a, 'b, 'g, 'h) objects \<Rightarrow> ('a, 'b, 'g, 'h) objects"

definition elapse :: "nat \<Rightarrow> ('a, 'b, 'g, 'h) world \<Rightarrow> ('a, 'b, 'g, 'h) world" where
  "elapse n w = w\<lparr>ticks := ticks w + n\<rparr>"

definition blocked ::
  "('a, 'b, 'g, 'h) interference \<Rightarrow> ('a, 'b, 'g, 'h) world \<Rightarrow> ('a, 'b, 'g, 'h) world" where
  "blocked e w = w\<lparr>store := others e (store w)\<rparr>"

subsection \<open>SensorsInitialize and SensorsStart\<close>

text \<open>The six calls of the source, in its order; their return codes are dropped.\<close>

definition SensorsInitialize ::
  "(uavobj \<Rightarrow> int) \<Rightarrow> ('a, 'b, 'g, 'h) world \<Rightarrow> int \<times> ('a, 'b, 'g, 'h) world" where
  "SensorsInitialize reg w =
     (let w = snd (UAVObjInitialize reg Accels w);
          w = snd (UAVObjInitialize reg BaroAltitude w);
          w = snd (UAVObjInitialize reg Gyros w);
          w = snd (UAVObjInitialize reg GyrosBias w);
          w = snd (UAVObjInitialize reg Magnetometer w);
          w = snd (UAVObjInitialize reg RevoCalibration w)
      in (0, w))"

definition SensorsStart ::
  "config \<Rightarrow> xTaskHandle option \<Rightarrow> ('a, 'b, 'g, 'h) world \<Rightarrow> int \<times> ('a, 'b, 'g, 'h) world" where
  "SensorsStart cfg spawn w =
     (let w = snd (xTaskCreate spawn ''Sensors'' (STACK_SIZE_BYTES div 4) (TASK_PRIORITY cfg) w);
          w = log (TaskMonitorAdd TASKINFO_RUNNING_SENSORS (sensorsTaskHandle w)) w;
          w = log (WDG_RegisterFlag PIOS_WDG_SENSORS) w
      in (0, w))"

subsection \<open>SensorsTask\<close>

text \<open>Lines 118 to 134: what the task does once, before its loop.\<close>

definition SensorsTask_startup ::
  "('a::{zero,numeral,uminus}, 'b, 'g, 'h) world \<Rightarrow> nat \<times> ('a, 'b, 'g, 'h) world" where
  "SensorsTask_startup w =
     (let w = log (AlarmsClear SYSTEMALARMS_ALARM_SENSORS) w;
          (homeLocation, w) = HomeLocationGet w;
          homeLocation = homeLocation\<lparr>home_Latitude := 0\<rparr>;
          homeLocation = homeLocation\<lparr>home_Longitude := 0\<rparr>;
          homeLocation = homeLocation\<lparr>home_Altitude := 0\<rparr>;
          homeLocation = homeLocation\<lparr>home_Be := (home_Be homeLocation)(0 := 26000)\<rparr>;
          homeLocation = homeLocation\<lparr>home_Be := (home_Be homeLocation)(1 := 400)\<rparr>;
          homeLocation = homeLocation\<lparr>home_Be := (home_Be homeLocation)(2 := 40000)\<rparr>;
          homeLocation = homeLocation\<lparr>home_Set := HOMELOCATION_SET_TRUE\<rparr>;
          w = HomeLocationSet homeLocation w;
          (lastSysTime, w) = xTaskGetTickCount w
      in (lastSysTime, w))"

text \<open>Lines 138 to 180: the body of the loop up to the watchdog update.\<close>

definition SensorsTask_body ::
  "('a::{zero,numeral,uminus}, 'b, 'g, 'h) world \<Rightarrow> ('a, 'b, 'g, 'h) world" where
  "SensorsTask_body w =
     (let accelsData = \<lparr>accels_x = 0, accels_y = - 1, accels_z = - 8, accels_temperature = 0\<rparr>;
          w = AccelsSet accelsData w;
          gyrosData = \<lparr>gyros_x = 2, gyros_y = 0, gyros_z = 1\<rparr>;
          (gyrosBias, w) = GyrosBiasGet w;
          gyrosData = gyrosData\<lparr>gyros_x := gyros_x gyrosData + bias_x gyrosBias\<rparr>;
          gyrosData = gyrosData\<lparr>gyros_y := gyros_y gyrosData + bias_y gyrosBias\<rparr>;
          gyrosData = gyrosData\<lparr>gyros_z := gyros_z gyrosData + bias_z gyrosBias\<rparr>;
          w = GyrosSet gyrosData w;
          (baroAltitude, w) = BaroAltitudeGet w;
          baroAltitude = baroAltitude\<lparr>baro_Altitude := 1\<rparr>;
          w = BaroAltitudeSet baroAltitude w;
          (gpsPosition, w) = GPSPositionGet w;
          gpsPosition = gpsPosition\<lparr>gps_Latitude := 0\<rparr>;
          gpsPosition = gpsPosition\<lparr>gps_Longitude := 0\<rparr>;
          gpsPosition = gpsPosition\<lparr>gps_Altitude := 0\<rparr>;
          w = GPSPositionSet gpsPosition w;
          mag = \<lparr>mag_x = 400, mag_y = 0, mag_z = 800\<rparr>;
          w = MagnetometerSet mag w;
          w = log (WDG_UpdateFlag PIOS_WDG_SENSORS) w
      in w)"

text \<open>
  One turn of \<open>while (1)\<close>: the body, then line 182, \<open>vTaskDelay(20 / portTICK_RATE_MS)\<close>,
  during which the other tasks run.
\<close>

definition SensorsTask_cycle ::
  "config \<Rightarrow> ('a, 'b, 'g, 'h) interference \<Rightarrow> ('a::{zero,numeral,uminus}, 'b, 'g, 'h) world
     \<Rightarrow> ('a, 'b, 'g, 'h) world" where
  "SensorsTask_cycle cfg e w =
     blocked e (vTaskDelay (20 div portTICK_RATE_MS cfg) (elapse (busy e) (SensorsTask_body w)))"

text \<open>
  The loop has no exit. A run is observed through its first cycles, one for each element
  of the list of what happens around them.
\<close>

fun SensorsTask_loop ::
  "config \<Rightarrow> ('a, 'b, 'g, 'h) interference list \<Rightarrow> ('a::{zero,numeral,uminus}, 'b, 'g, 'h) world
     \<Rightarrow> ('a, 'b, 'g, 'h) world" where
  "SensorsTask_loop cfg [] w = w"
| "SensorsTask_loop cfg (e # es) w = SensorsTask_loop cfg es (SensorsTask_cycle cfg e w)"

definition SensorsTask ::
  "config \<Rightarrow> ('a, 'b, 'g, 'h) interference list \<Rightarrow> ('a::{zero,numeral,uminus}, 'b, 'g, 'h) world
     \<Rightarrow> ('a, 'b, 'g, 'h) world" where
  "SensorsTask cfg es w =
     (let (lastSysTime, w) = SensorsTask_startup w
      in SensorsTask_loop cfg es w)"

text \<open>The worlds in which the cycles of a run start, in order.\<close>

fun cycle_starts ::
  "config \<Rightarrow> ('a, 'b, 'g, 'h) interference list \<Rightarrow> ('a::{zero,numeral,uminus}, 'b, 'g, 'h) world
     \<Rightarrow> ('a, 'b, 'g, 'h) world list" where
  "cycle_starts cfg [] w = []"
| "cycle_starts cfg (e # es) w = w # cycle_starts cfg es (SensorsTask_cycle cfg e w)"

subsection \<open>Reading the call log\<close>

fun Accels_published :: "('a, 'b, 'g, 'h) call list \<Rightarrow> 'a AccelsData list" where
  "Accels_published [] = []"
| "Accels_published (Set_Accels v # cs) = v # Accels_published cs"
| "Accels_published (c # cs) = Accels_published cs"

fun Gyros_published :: "('a, 'b, 'g, 'h) call list \<Rightarrow> 'a GyrosData list" where
  "Gyros_published [] = []"
| "Gyros_published (Set_Gyros v # cs) = v # Gyros_published cs"
| "Gyros_published (c # cs) = Gyros_published cs"

fun GyrosBias_read :: "('a, 'b, 'g, 'h) call list \<Rightarrow> 'a GyrosBiasData list" where
  "GyrosBias_read [] = []"
| "GyrosBias_read (Get_GyrosBias v # cs) = v # GyrosBias_read cs"
| "GyrosBias_read (c # cs) = GyrosBias_read cs"

fun Magnetometer_published :: "('a, 'b, 'g, 'h) call list \<Rightarrow> 'a MagnetometerData list" where
  "Magnetometer_published [] = []"
| "Magnetometer_published (Set_Magnetometer v # cs) = v # Magnetometer_published cs"
| "Magnetometer_published (c # cs) = Magnetometer_published cs"

fun HomeLocation_written ::
  "('a, 'b, 'g, 'h) call list \<Rightarrow> ('a, 'h) HomeLocationData_scheme list" where
  "HomeLocation_written [] = []"
| "HomeLocation_written (Set_HomeLocation v # cs) = v # HomeLocation_written cs"
| "HomeLocation_written (c # cs) = HomeLocation_written cs"


text \<open>
  The claim's reading of the suspension, in its words: the task wakes on a boundary of the
  period counted from the tick count it read before its loop.
\<close>

definition on_period_boundary :: "nat \<Rightarrow> nat \<Rightarrow> nat \<Rightarrow> bool" where
  "on_period_boundary lastSysTime period t = (lastSysTime \<le> t \<and> period dvd (t - lastSysTime))"




subsection \<open>A concrete world\<close>

definition objects0 :: "(int, unit, unit, unit) objects" where
  "objects0 =
     \<lparr>accels = \<lparr>accels_x = 0, accels_y = 0, accels_z = 0, accels_temperature = 0\<rparr>,
      gyros = \<lparr>gyros_x = 0, gyros_y = 0, gyros_z = 0\<rparr>,
      gyrosBias = \<lparr>bias_x = 5, bias_y = 5, bias_z = 5\<rparr>,
      baroAltitude = \<lparr>baro_Altitude = 0\<rparr>,
      gpsPosition = \<lparr>gps_Latitude = 0, gps_Longitude = 0, gps_Altitude = 0\<rparr>,
      homeLocation =
        \<lparr>home_Latitude = 0, home_Longitude = 0, home_Altitude = 0, home_Be = (\<lambda>i. 0),
         home_Set = HOMELOCATION_SET_FALSE\<rparr>,
      magnetometer = \<lparr>mag_x = 0, mag_y = 0, mag_z = 0\<rparr>\<rparr>"

definition world0 :: "(int, unit, unit, unit) world" where
  "world0 =
     \<lparr>store = objects0, registered = {}, sensorsTaskHandle = None, ticks = 0, calls = []\<rparr>"

definition config0 :: config where
  "config0 = \<lparr>portTICK_RATE_MS = 1, tskIDLE_PRIORITY = 0\<rparr>"

text \<open>
  Two cycles: the first is kept from its delay call for 3 ticks and an estimator writes a
  new gyro bias while the task sleeps; the second runs undisturbed.
\<close>

definition step0 :: "(int, unit, unit, unit) interference" where
  "step0 =
     \<lparr>busy = 3, others = (\<lambda>s. s\<lparr>gyrosBias := \<lparr>bias_x = 1, bias_y = 2, bias_z = 3\<rparr>\<rparr>)\<rparr>"

definition step1 :: "(int, unit, unit, unit) interference" where
  "step1 = \<lparr>busy = 0, others = (\<lambda>s. s)\<rparr>"

definition run0 :: "(int, unit, unit, unit) interference list" where
  "run0 = [step0, step1]"


section \<open>Properties\<close>

subsection \<open>What each part of the task adds to the log and to the store\<close>

lemmas collaborator_defs =
  log_def HomeLocationGet_def HomeLocationSet_def AccelsSet_def GyrosBiasGet_def GyrosSet_def
  BaroAltitudeGet_def BaroAltitudeSet_def GPSPositionGet_def GPSPositionSet_def
  MagnetometerSet_def xTaskGetTickCount_def vTaskDelay_def elapse_def blocked_def Let_def

lemma body_calls:
  "calls (SensorsTask_body w) = calls w @
     [Set_Accels \<lparr>accels_x = 0, accels_y = - 1, accels_z = - 8, accels_temperature = 0\<rparr>,
      Get_GyrosBias (gyrosBias (store w)),
      Set_Gyros \<lparr>gyros_x = 2 + bias_x (gyrosBias (store w)),
                 gyros_y = 0 + bias_y (gyrosBias (store w)),
                 gyros_z = 1 + bias_z (gyrosBias (store w))\<rparr>,
      Get_BaroAltitude (baroAltitude (store w)),
      Set_BaroAltitude ((baroAltitude (store w))\<lparr>baro_Altitude := 1\<rparr>),
      Get_GPSPosition (gpsPosition (store w)),
      Set_GPSPosition
        ((gpsPosition (store w))\<lparr>gps_Latitude := 0, gps_Longitude := 0, gps_Altitude := 0\<rparr>),
      Set_Magnetometer \<lparr>mag_x = 400, mag_y = 0, mag_z = 800\<rparr>,
      WDG_UpdateFlag PIOS_WDG_SENSORS]"
  by (simp add: SensorsTask_body_def collaborator_defs)

lemma body_store:
  "store (SensorsTask_body w) =
     (store w)
       \<lparr>accels := \<lparr>accels_x = 0, accels_y = - 1, accels_z = - 8, accels_temperature = 0\<rparr>,
        gyros := \<lparr>gyros_x = 2 + bias_x (gyrosBias (store w)),
                  gyros_y = 0 + bias_y (gyrosBias (store w)),
                  gyros_z = 1 + bias_z (gyrosBias (store w))\<rparr>,
        baroAltitude := (baroAltitude (store w))\<lparr>baro_Altitude := 1\<rparr>,
        gpsPosition :=
          (gpsPosition (store w))\<lparr>gps_Latitude := 0, gps_Longitude := 0, gps_Altitude := 0\<rparr>,
        magnetometer := \<lparr>mag_x = 400, mag_y = 0, mag_z = 800\<rparr>\<rparr>"
  by (simp add: SensorsTask_body_def collaborator_defs)

lemma body_ticks: "ticks (SensorsTask_body w) = ticks w"
  by (simp add: SensorsTask_body_def collaborator_defs)

lemma cycle_calls:
  "calls (SensorsTask_cycle cfg e w) =
     calls (SensorsTask_body w) @ [TaskDelay (20 div portTICK_RATE_MS cfg)]"
  by (simp add: SensorsTask_cycle_def collaborator_defs)

lemma cycle_store: "store (SensorsTask_cycle cfg e w) = others e (store (SensorsTask_body w))"
  by (simp add: SensorsTask_cycle_def collaborator_defs)

lemma cycle_ticks:
  "ticks (SensorsTask_cycle cfg e w) = ticks w + busy e + 20 div portTICK_RATE_MS cfg"
  by (simp add: SensorsTask_cycle_def collaborator_defs body_ticks)

lemma startup_calls:
  "calls (snd (SensorsTask_startup w)) = calls w @
     [AlarmsClear SYSTEMALARMS_ALARM_SENSORS,
      Get_HomeLocation (homeLocation (store w)),
      Set_HomeLocation ((homeLocation (store w))
        \<lparr>home_Latitude := 0, home_Longitude := 0, home_Altitude := 0,
         home_Be := (home_Be (homeLocation (store w)))(0 := 26000, 1 := 400, 2 := 40000),
         home_Set := HOMELOCATION_SET_TRUE\<rparr>),
      GetTickCount (ticks w)]"
  by (simp add: SensorsTask_startup_def collaborator_defs)

lemma startup_store:
  "store (snd (SensorsTask_startup w)) =
     (store w)\<lparr>homeLocation := (homeLocation (store w))
        \<lparr>home_Latitude := 0, home_Longitude := 0, home_Altitude := 0,
         home_Be := (home_Be (homeLocation (store w)))(0 := 26000, 1 := 400, 2 := 40000),
         home_Set := HOMELOCATION_SET_TRUE\<rparr>\<rparr>"
  by (simp add: SensorsTask_startup_def collaborator_defs)

lemma startup_ticks:
  "ticks (snd (SensorsTask_startup w)) = ticks w \<and> fst (SensorsTask_startup w) = ticks w"
  by (simp add: SensorsTask_startup_def collaborator_defs)

lemma SensorsTask_eq:
  "SensorsTask cfg es w = SensorsTask_loop cfg es (snd (SensorsTask_startup w))"
  by (simp add: SensorsTask_def split_def)

subsection \<open>The log readers over a longer log\<close>

lemma Accels_published_append:
  "Accels_published (xs @ ys) = Accels_published xs @ Accels_published ys"
  by (induction xs rule: Accels_published.induct) simp_all

lemma Gyros_published_append:
  "Gyros_published (xs @ ys) = Gyros_published xs @ Gyros_published ys"
  by (induction xs rule: Gyros_published.induct) simp_all

lemma GyrosBias_read_append:
  "GyrosBias_read (xs @ ys) = GyrosBias_read xs @ GyrosBias_read ys"
  by (induction xs rule: GyrosBias_read.induct) simp_all

lemma Magnetometer_published_append:
  "Magnetometer_published (xs @ ys) = Magnetometer_published xs @ Magnetometer_published ys"
  by (induction xs rule: Magnetometer_published.induct) simp_all

lemma HomeLocation_written_append:
  "HomeLocation_written (xs @ ys) = HomeLocation_written xs @ HomeLocation_written ys"
  by (induction xs rule: HomeLocation_written.induct) simp_all


subsection \<open>The loop, by induction on the cycles run\<close>

lemma length_cycle_starts: "length (cycle_starts cfg es w) = length es"
  by (induction es arbitrary: w) simp_all

lemma loop_calls_Gyros:
  "Gyros_published (calls (SensorsTask_loop cfg es w)) =
     Gyros_published (calls w) @
     map (\<lambda>s. \<lparr>gyros_x = 2 + bias_x (gyrosBias (store s)),
               gyros_y = 0 + bias_y (gyrosBias (store s)),
               gyros_z = 1 + bias_z (gyrosBias (store s))\<rparr>) (cycle_starts cfg es w)"
  by (induction es arbitrary: w)
    (simp_all add: cycle_calls body_calls Gyros_published_append)

lemma loop_calls_GyrosBias:
  "GyrosBias_read (calls (SensorsTask_loop cfg es w)) =
     GyrosBias_read (calls w) @ map (\<lambda>s. gyrosBias (store s)) (cycle_starts cfg es w)"
  by (induction es arbitrary: w)
    (simp_all add: cycle_calls body_calls GyrosBias_read_append)

lemma loop_calls_Accels:
  "Accels_published (calls (SensorsTask_loop cfg es w)) =
     Accels_published (calls w) @
     replicate (length es)
       \<lparr>accels_x = 0, accels_y = - 1, accels_z = - 8, accels_temperature = 0\<rparr>"
  by (induction es arbitrary: w)
    (simp_all add: cycle_calls body_calls Accels_published_append replicate_app_Cons_same)

lemma loop_calls_Magnetometer:
  "Magnetometer_published (calls (SensorsTask_loop cfg es w)) =
     Magnetometer_published (calls w) @
     replicate (length es) \<lparr>mag_x = 400, mag_y = 0, mag_z = 800\<rparr>"
  by (induction es arbitrary: w)
    (simp_all add: cycle_calls body_calls Magnetometer_published_append replicate_app_Cons_same)

lemma loop_calls_HomeLocation:
  "HomeLocation_written (calls (SensorsTask_loop cfg es w)) = HomeLocation_written (calls w)"
  by (induction es arbitrary: w)
    (simp_all add: cycle_calls body_calls HomeLocation_written_append)


lemma loop_ticks:
  "ticks (SensorsTask_loop cfg es w) =
     ticks w + sum_list (map busy es) + length es * (20 div portTICK_RATE_MS cfg)"
  by (induction es arbitrary: w) (simp_all add: cycle_ticks)

lemma loop_homeLocation:
  "\<forall>e\<in>set es. \<forall>s. homeLocation (others e s) = homeLocation s \<Longrightarrow>
     homeLocation (store (SensorsTask_loop cfg es w)) = homeLocation (store w)"
  by (induction es arbitrary: w) (simp_all add: cycle_store body_store)

subsection \<open>When the watchdog flag is updated\<close>






section \<open>The claims\<close>

text \<open>
  C1. In every cycle the Gyroscope record published is (2 + bias.x, 0 + bias.y, 1 + bias.z),
  where bias is the Gyro Bias record the store holds when the cycle reads it. Over a run,
  whatever the other tasks write between the cycles: the Gyroscope records published are,
  in order, the corrected constants for the bias held at the start of each cycle, and
  those are the values the reads of Gyro Bias returned, one per cycle. After the body of a
  cycle the store's Gyroscope record is that value. With a bias of (5, 5, 5) it is (7, 5, 6).
\<close>

theorem Gyros_published_bias_corrected:
  "Gyros_published (calls (SensorsTask_loop cfg es w)) =
     Gyros_published (calls w) @
     map (\<lambda>s. \<lparr>gyros_x = 2 + bias_x (gyrosBias (store s)),
               gyros_y = 0 + bias_y (gyrosBias (store s)),
               gyros_z = 1 + bias_z (gyrosBias (store s))\<rparr>) (cycle_starts cfg es w)
   \<and> GyrosBias_read (calls (SensorsTask_loop cfg es w)) =
     GyrosBias_read (calls w) @ map (\<lambda>s. gyrosBias (store s)) (cycle_starts cfg es w)
   \<and> length (cycle_starts cfg es w) = length es
   \<and> gyros (store (SensorsTask_body w)) =
       \<lparr>gyros_x = 2 + bias_x (gyrosBias (store w)),
        gyros_y = 0 + bias_y (gyrosBias (store w)),
        gyros_z = 1 + bias_z (gyrosBias (store w))\<rparr>
   \<and> gyros (store (SensorsTask_body
        (v\<lparr>store := (store v)\<lparr>gyrosBias := \<lparr>bias_x = 5, bias_y = 5, bias_z = 5 :: int\<rparr>\<rparr>\<rparr>))) =
       \<lparr>gyros_x = 7, gyros_y = 5, gyros_z = 6\<rparr>"
proof -
  have published: "Gyros_published (calls (SensorsTask_loop cfg es w)) =
     Gyros_published (calls w) @
     map (\<lambda>s. \<lparr>gyros_x = 2 + bias_x (gyrosBias (store s)),
               gyros_y = 0 + bias_y (gyrosBias (store s)),
               gyros_z = 1 + bias_z (gyrosBias (store s))\<rparr>) (cycle_starts cfg es w)"
    by (rule loop_calls_Gyros)
  have reads: "GyrosBias_read (calls (SensorsTask_loop cfg es w)) =
     GyrosBias_read (calls w) @ map (\<lambda>s. gyrosBias (store s)) (cycle_starts cfg es w)"
    by (rule loop_calls_GyrosBias)
  have one_each: "length (cycle_starts cfg es w) = length es"
    by (rule length_cycle_starts)
  have stored: "gyros (store (SensorsTask_body w)) =
       \<lparr>gyros_x = 2 + bias_x (gyrosBias (store w)),
        gyros_y = 0 + bias_y (gyrosBias (store w)),
        gyros_z = 1 + bias_z (gyrosBias (store w))\<rparr>"
    by (simp add: body_store)
  have example: "gyros (store (SensorsTask_body
        (v\<lparr>store := (store v)\<lparr>gyrosBias := \<lparr>bias_x = 5, bias_y = 5, bias_z = 5 :: int\<rparr>\<rparr>\<rparr>))) =
       \<lparr>gyros_x = 7, gyros_y = 5, gyros_z = 6\<rparr>"
    by (simp add: body_store)
  from published reads one_each stored example show ?thesis
    by blast
qed

text \<open>
  C2. The task writes the Home Location record exactly once, in its startup, before the
  loop, and the loop never writes it: over the startup and any number of cycles the log
  gains one write of Home Location, the one of the startup, and the cycles alone add none.
  The record written has latitude, longitude and altitude 0, the field vector
  (26000, 400, 40000) and the flag set, whatever the record held before.
\<close>

theorem HomeLocation_written_once_before_loop:
  "HomeLocation_written (calls (snd (SensorsTask_startup w))) =
     HomeLocation_written (calls w) @ [homeLocation (store (snd (SensorsTask_startup w)))]
   \<and> HomeLocation_written (calls (SensorsTask_loop cfg es v)) = HomeLocation_written (calls v)
   \<and> HomeLocation_written (calls (SensorsTask cfg es w)) =
     HomeLocation_written (calls w) @ [homeLocation (store (snd (SensorsTask_startup w)))]
   \<and> home_Latitude (homeLocation (store (snd (SensorsTask_startup w)))) = 0
   \<and> home_Longitude (homeLocation (store (snd (SensorsTask_startup w)))) = 0
   \<and> home_Altitude (homeLocation (store (snd (SensorsTask_startup w)))) = 0
   \<and> home_Be (homeLocation (store (snd (SensorsTask_startup w)))) 0 = 26000
   \<and> home_Be (homeLocation (store (snd (SensorsTask_startup w)))) 1 = 400
   \<and> home_Be (homeLocation (store (snd (SensorsTask_startup w)))) 2 = 40000
   \<and> home_Set (homeLocation (store (snd (SensorsTask_startup w)))) = HOMELOCATION_SET_TRUE"
  by (simp add: SensorsTask_eq loop_calls_HomeLocation startup_calls startup_store
      HomeLocation_written_append)

text \<open>
  C3, as the code has it. \<open>SensorsInitialize\<close> asks the store to register the
  Accelerometer, Barometric Altitude, Gyroscope, Gyro Bias, Magnetometer and Revo
  Calibration records, once each and in this order, and no other record; of these, the
  ones the store accepts are registered afterwards. GPS Position and Home Location are not
  among them.
\<close>

theorem SensorsInitialize_registrations:
  "calls (snd (SensorsInitialize reg w)) = calls w @
     map ObjInitialize [Accels, BaroAltitude, Gyros, GyrosBias, Magnetometer, RevoCalibration]
   \<and> registered (snd (SensorsInitialize reg w)) =
      registered w \<union>
      {obj \<in> {Accels, BaroAltitude, Gyros, GyrosBias, Magnetometer, RevoCalibration}. reg obj = 0}"
  by (auto simp add: SensorsInitialize_def UAVObjInitialize_def log_def Let_def)

text \<open>
  C3 as stated fails: when the store refuses the Accelerometer record (-1),
  \<open>SensorsInitialize\<close> still returns 0; and when every registration succeeds, GPS Position
  and Home Location are still not registered.
\<close>

theorem SensorsInitialize_not_all_not_failure:
  "fst (SensorsInitialize (\<lambda>obj. if obj = Accels then - 1 else 0) world0) = 0
   \<and> GPSPosition \<notin> registered (snd (SensorsInitialize (\<lambda>obj. 0) world0))
   \<and> HomeLocation \<notin> registered (snd (SensorsInitialize (\<lambda>obj. 0) world0))"
  by (simp add: SensorsInitialize_def UAVObjInitialize_def log_def Let_def world0_def)

text \<open>
  C4. The body of a cycle leaves in the store the Barometric Altitude record it read with
  the altitude set to 1, and the GPS Position record it read with latitude, longitude and
  altitude set to 0; every other field of the two records (the extension part) is what it
  was.
\<close>

theorem BaroAltitude_GPSPosition_read_modify_write:
  "baroAltitude (store (SensorsTask_body w)) = (baroAltitude (store w))\<lparr>baro_Altitude := 1\<rparr>
   \<and> gpsPosition (store (SensorsTask_body w)) =
      (gpsPosition (store w))\<lparr>gps_Latitude := 0, gps_Longitude := 0, gps_Altitude := 0\<rparr>
   \<and> baro_Altitude (baroAltitude (store (SensorsTask_body w))) = 1
   \<and> BaroAltitudeData.more (baroAltitude (store (SensorsTask_body w))) =
      BaroAltitudeData.more (baroAltitude (store w))
   \<and> gps_Latitude (gpsPosition (store (SensorsTask_body w))) = 0
   \<and> gps_Longitude (gpsPosition (store (SensorsTask_body w))) = 0
   \<and> gps_Altitude (gpsPosition (store (SensorsTask_body w))) = 0
   \<and> GPSPositionData.more (gpsPosition (store (SensorsTask_body w))) =
      GPSPositionData.more (gpsPosition (store w))"
  by (simp add: body_store)

text \<open>
  C5. In every cycle the Accelerometer record published is x = 0, y = -1, z = -8,
  temperature = 0, whatever the store holds: a run of n cycles publishes that record n
  times and no other, and it is the store's Accelerometer record after the body of a cycle.
\<close>

theorem Accels_published_constant:
  "Accels_published (calls (SensorsTask_loop cfg es w)) =
     Accels_published (calls w) @
     replicate (length es)
       \<lparr>accels_x = 0, accels_y = - 1, accels_z = - 8, accels_temperature = 0\<rparr>
   \<and> accels (store (SensorsTask_body w)) =
     \<lparr>accels_x = 0, accels_y = - 1, accels_z = - 8, accels_temperature = 0\<rparr>"
  by (simp add: loop_calls_Accels body_store)

text \<open>
  C6. The task, run through its startup and n cycles, publishes exactly n Magnetometer
  records, each (400, 0, 800). The cycles write no Home Location record, and when no other
  task writes it either, the store's Home Location record after any number of cycles is
  the one it held before them.
\<close>

theorem Magnetometer_published_constant:
  "Magnetometer_published (calls (SensorsTask cfg es w)) =
     Magnetometer_published (calls w) @
     replicate (length es) \<lparr>mag_x = 400, mag_y = 0, mag_z = 800\<rparr>
   \<and> HomeLocation_written (calls (SensorsTask_loop cfg es v)) = HomeLocation_written (calls v)
   \<and> ((\<forall>e\<in>set es. \<forall>s. homeLocation (others e s) = homeLocation s) \<longrightarrow>
        homeLocation (store (SensorsTask_loop cfg es v)) = homeLocation (store v))"
  by (simp add: SensorsTask_eq loop_calls_Magnetometer loop_calls_HomeLocation startup_calls
      Magnetometer_published_append loop_homeLocation)

theorem Magnetometer_published_constant_witness:
  "Magnetometer_published (calls (SensorsTask config0 run0 world0)) =
     [\<lparr>mag_x = 400, mag_y = 0, mag_z = 800\<rparr>, \<lparr>mag_x = 400, mag_y = 0, mag_z = 800\<rparr>]
   \<and> homeLocation (store (SensorsTask_loop config0 run0 (snd (SensorsTask_startup world0)))) =
     homeLocation (store (snd (SensorsTask_startup world0)))"
proof -
  have quiet: "\<forall>e\<in>set run0. \<forall>s. homeLocation (others e s) = homeLocation s"
    by (simp add: run0_def step0_def step1_def)
  have empty: "calls world0 = []"
    by (simp add: world0_def)
  have two: "length run0 = 2"
    by (simp add: run0_def)
  from Magnetometer_published_constant
    [of config0 run0 world0 "snd (SensorsTask_startup world0)"] quiet empty two
  show ?thesis
    by (simp add: numeral_2_eq_2)
qed

text \<open>
  C7, at the input where it fails. When the scheduler cannot create the task,
  \<open>SensorsStart\<close> makes its three calls all the same (the task monitor is given the handle
  that was never assigned) and returns 0; it returns 0 whatever the scheduler answers.
\<close>

theorem SensorsStart_returns_0_when_spawn_fails:
  "fst (SensorsStart cfg None w) = 0
   \<and> calls (snd (SensorsStart cfg None w)) = calls w @
       [TaskCreate ''Sensors'' 385 (tskIDLE_PRIORITY cfg + 3),
        TaskMonitorAdd TASKINFO_RUNNING_SENSORS (sensorsTaskHandle w),
        WDG_RegisterFlag PIOS_WDG_SENSORS]
   \<and> fst (SensorsStart cfg spawn w) = 0"
  by (simp add: SensorsStart_def xTaskCreate_def log_def Let_def STACK_SIZE_BYTES_def
      TASK_PRIORITY_def)

text \<open>
  C8, as the code has it. The last call of every cycle is a relative delay of
  20 / portTICK_RATE_MS ticks, counted from the call: the next cycle starts that many
  ticks after the ticks that went by during this cycle's work, and n cycles take n delays
  plus all the ticks their work took. The length of the delay is the literal 20, not
  \<open>SENSOR_PERIOD\<close>.
\<close>

theorem cycle_ends_with_relative_delay:
  assumes "0 < portTICK_RATE_MS cfg"
  shows "ticks (SensorsTask_cycle cfg e w) = ticks w + busy e + 20 div portTICK_RATE_MS cfg
    \<and> last (calls (SensorsTask_cycle cfg e w)) = TaskDelay (20 div portTICK_RATE_MS cfg)
    \<and> ticks (SensorsTask_loop cfg es w) =
        ticks w + sum_list (map busy es) + length es * (20 div portTICK_RATE_MS cfg)"
proof (intro conjI)
  show "ticks (SensorsTask_cycle cfg e w) = ticks w + busy e + 20 div portTICK_RATE_MS cfg"
    by (rule cycle_ticks)
  show "last (calls (SensorsTask_cycle cfg e w)) = TaskDelay (20 div portTICK_RATE_MS cfg)"
    by (simp add: cycle_calls)
  show "ticks (SensorsTask_loop cfg es w) =
        ticks w + sum_list (map busy es) + length es * (20 div portTICK_RATE_MS cfg)"
    by (rule loop_ticks)
qed

theorem cycle_ends_with_relative_delay_witness:
  "0 < portTICK_RATE_MS config0
   \<and> ticks (SensorsTask_cycle config0 step0 world0) = 23
   \<and> last (calls (SensorsTask_cycle config0 step0 world0)) = TaskDelay 20
   \<and> ticks (SensorsTask_loop config0 run0 world0) = 43
   \<and> TaskDelay 20 \<noteq> TaskDelay (SENSOR_PERIOD div portTICK_RATE_MS config0)"
proof -
  have rate: "0 < portTICK_RATE_MS config0"
    by (simp add: config0_def)
  from cycle_ends_with_relative_delay [OF rate, of step0 world0 run0] rate
  show ?thesis
    by (simp add: config0_def world0_def run0_def step0_def step1_def SENSOR_PERIOD_def)
qed

text \<open>
  C8 as stated fails: a cycle that starts at tick 0 and reaches its delay call 3 ticks
  later wakes at tick 23, which is not a boundary of the 20-tick period counted from the
  tick count read before the loop.
\<close>

theorem cycle_wakes_off_period_boundary:
  "\<not> on_period_boundary (fst (SensorsTask_startup world0)) (20 div portTICK_RATE_MS config0)
       (ticks (SensorsTask config0 [step0] world0))"
  by (simp add: on_period_boundary_def SensorsTask_eq cycle_ticks startup_ticks world0_def
      config0_def step0_def)




text \<open>
  C10. The startup reads the Home Location record, then writes back that very record with
  Latitude, Longitude, Altitude, Be[0], Be[1], Be[2] and Set overwritten and nothing else
  changed: the record written and left in the store is the record read with those updates,
  and its other fields (the extension part) are the ones read.
\<close>

theorem HomeLocation_seeding_keeps_other_fields:
  "calls (snd (SensorsTask_startup w)) = calls w @
     [AlarmsClear SYSTEMALARMS_ALARM_SENSORS,
      Get_HomeLocation (homeLocation (store w)),
      Set_HomeLocation ((homeLocation (store w))
        \<lparr>home_Latitude := 0, home_Longitude := 0, home_Altitude := 0,
         home_Be := (home_Be (homeLocation (store w)))(0 := 26000, 1 := 400, 2 := 40000),
         home_Set := HOMELOCATION_SET_TRUE\<rparr>),
      GetTickCount (ticks w)]
   \<and> homeLocation (store (snd (SensorsTask_startup w))) =
      (homeLocation (store w))
        \<lparr>home_Latitude := 0, home_Longitude := 0, home_Altitude := 0,
         home_Be := (home_Be (homeLocation (store w)))(0 := 26000, 1 := 400, 2 := 40000),
         home_Set := HOMELOCATION_SET_TRUE\<rparr>
   \<and> HomeLocationData.more (homeLocation (store (snd (SensorsTask_startup w)))) =
      HomeLocationData.more (homeLocation (store w))"
  by (simp add: startup_calls startup_store)

end
